theory Spec2Isabelle
  imports Main
begin

section \<open>The preferences package initialiser of FlatCAM\<close>

text \<open>
  The module \<^verbatim>\<open>appGUI/preferences/__init__.py\<close> runs three steps when it is imported:
  \<^verbatim>\<open>
  fcTranslate.apply_language('strings')
  if '_' not in builtins.__dict__:
      _ = gettext.gettext

  settings = QSettings("Open Source", "FlatCAM")
  if settings.contains("machinist"):
      machinist_setting = settings.value('machinist', type=int)
  else:
      machinist_setting = 0
  \<close>
  The model threads one interpreter state through these statements. The state holds the
  two namespaces the module touches, the persistent settings storage, what the
  \<^verbatim>\<open>gettext\<close> module looks at, and a log of the calls made on the settings object.
\<close>

subsection \<open>Values, exceptions, interpreter state\<close>

text \<open>
  The Python values a name of this module can be bound to. \<open>Gettext_gettext\<close> is the
  function object \<^verbatim>\<open>gettext.gettext\<close>; \<open>PyFun\<close> is any other callable, given by
  what it returns on a string argument; \<open>PyQSettings\<close> is a settings object with its
  organization and application.
\<close>

datatype pyval =
    PyNone
  | PyInt int
  | PyStr string
  | PyFun "string \<Rightarrow> pyval"
  | PyQSettings string string
  | Gettext_gettext

datatype error = TypeError | NameError

datatype outcome = Completed | Raised error

text \<open>One entry per call on the settings object; the flag is what the storage held.\<close>

datatype event =
    Ev_open string string
  | Ev_contains string bool
  | Ev_value string bool

type_synonym catalog = "string \<rightharpoonup> string"

type_synonym qsettings = "string \<times> string"

record 'q pystate =
  builtins_dict :: "string \<rightharpoonup> pyval"
  module_dict :: "string \<rightharpoonup> pyval"
  storage :: "qsettings \<rightharpoonup> (string \<rightharpoonup> 'q)"
  text_domain :: string
  catalogs :: "string \<rightharpoonup> catalog"
  calls :: "event list"

text \<open>
  \<open>builtins_dict\<close> is \<^verbatim>\<open>builtins.__dict__\<close>, \<open>module_dict\<close> the namespace of the module
  being loaded (as the import statements of lines 1 to 5 left it). \<open>storage\<close> is the
  platform's persistent settings, one key-value table per (organization, application)
  pair, with stored values of some type \<open>'q\<close>. \<open>text_domain\<close> is the current global
  domain of \<^verbatim>\<open>gettext\<close> and \<open>catalogs d\<close> the message catalog that
  \<^verbatim>\<open>gettext.translation\<close> finds for domain \<open>d\<close> under the current locale, if any.
  The names \<open>gettext\<close>, \<open>builtins\<close>, \<open>QSettings\<close> and \<open>fcTranslate\<close> are taken to
  denote what lines 1 to 4 import.
\<close>

subsection \<open>Names and calls\<close>

text \<open>A name used at module level is looked up in the module namespace, then in builtins.\<close>

definition lookup_name :: "'q pystate \<Rightarrow> string \<Rightarrow> pyval option" where
  "lookup_name s name =
     (case module_dict s name of Some v \<Rightarrow> Some v | None \<Rightarrow> builtins_dict s name)"

definition bind_global :: "string \<Rightarrow> pyval \<Rightarrow> 'q pystate \<Rightarrow> 'q pystate" where
  "bind_global name v s = s\<lparr>module_dict := (module_dict s)(name \<mapsto> v)\<rparr>"

text \<open>
  \<^verbatim>\<open>gettext.gettext(message)\<close> of the Python standard library: the catalog of the
  current domain is looked for; when none is found the message comes back as it is, and so
  it does when the catalog has no entry for it.
\<close>

definition gettext_gettext :: "'q pystate \<Rightarrow> string \<Rightarrow> string" where
  "gettext_gettext s message =
     (case catalogs s (text_domain s) of
        None \<Rightarrow> message
      | Some t \<Rightarrow> (case t message of None \<Rightarrow> message | Some tmsg \<Rightarrow> tmsg))"

text \<open>Calling a value with one string argument; a value that is no callable raises.\<close>

definition call :: "'q pystate \<Rightarrow> pyval \<Rightarrow> string \<Rightarrow> error + pyval" where
  "call s f arg =
     (case f of
        Gettext_gettext \<Rightarrow> Inr (PyStr (gettext_gettext s arg))
      | PyFun g \<Rightarrow> Inr (g arg)
      | _ \<Rightarrow> Inl TypeError)"

definition call_name :: "'q pystate \<Rightarrow> string \<Rightarrow> string \<Rightarrow> error + pyval" where
  "call_name s name arg =
     (case lookup_name s name of None \<Rightarrow> Inl NameError | Some f \<Rightarrow> call s f arg)"

definition callable :: "pyval \<Rightarrow> bool" where
  "callable f = (case f of Gettext_gettext \<Rightarrow> True | PyFun g \<Rightarrow> True | _ \<Rightarrow> False)"

text \<open>A translator is a callable that returns a string for every string.\<close>

definition is_translator :: "pyval \<Rightarrow> bool" where
  "is_translator f =
     (case f of
        Gettext_gettext \<Rightarrow> True
      | PyFun g \<Rightarrow> (\<forall>m. \<exists>t. g m = PyStr t)
      | _ \<Rightarrow> False)"

subsection \<open>Line 8: applying the language\<close>

text \<open>
  Modelled from the spec: \<^verbatim>\<open>appTranslation.apply_language\<close> is not among the sources.
  The spec says that it selects and activates the translation catalog of the given name
  for the current process locale, that its side effect is on the text lookup of later
  calls to the translation function, that it has no return value, and that with no
  catalog for the locale it falls back silently to untranslated text and raises nothing.
  Here: the named domain becomes the current one, so later lookups consult its catalog,
  and an absent catalog makes them return the message itself.
\<close>

definition apply_language :: "string \<Rightarrow> 'q pystate \<Rightarrow> outcome \<times> 'q pystate" where
  "apply_language domain s = (Completed, s\<lparr>text_domain := domain\<rparr>)"

subsection \<open>Lines 9 and 10: the guard\<close>

definition translator_guard :: "'q pystate \<Rightarrow> 'q pystate" where
  "translator_guard s =
     (if ''_'' \<notin> dom (builtins_dict s) then bind_global ''_'' Gettext_gettext s else s)"

definition bootstrap :: "'q pystate \<Rightarrow> outcome \<times> 'q pystate" where
  "bootstrap s =
     (case apply_language ''strings'' s of
        (Raised e, s1) \<Rightarrow> (Raised e, s1)
      | (Completed, s1) \<Rightarrow> (Completed, translator_guard s1))"

subsection \<open>Lines 12 to 16: the settings object and the machinist flag\<close>

text \<open>
  The settings class belongs to the Qt bindings, not to this repository. Its three
  operations used here follow the library's documentation: constructing the object
  names a table and touches nothing; a table that was never written reads as empty;
  \<^verbatim>\<open>contains\<close> tells whether the key is there; \<^verbatim>\<open>value\<close> fetches the stored
  variant, or the invalid variant for a key that is not there, and converts it to the
  requested Python type. That conversion is the parameter \<open>as_int\<close>: it gets
  \<open>Some v\<close> for a stored \<open>v\<close> and \<open>None\<close> for the invalid variant, and gives an
  integer or raises.
\<close>

definition store_of :: "'q pystate \<Rightarrow> qsettings \<Rightarrow> (string \<rightharpoonup> 'q)" where
  "store_of s h = (case storage s h of None \<Rightarrow> Map.empty | Some m \<Rightarrow> m)"

definition QSettings :: "string \<Rightarrow> string \<Rightarrow> 'q pystate \<Rightarrow> qsettings \<times> 'q pystate" where
  "QSettings organization application s =
     ((organization, application), s\<lparr>calls := calls s @ [Ev_open organization application]\<rparr>)"

definition settings_contains :: "qsettings \<Rightarrow> string \<Rightarrow> 'q pystate \<Rightarrow> bool \<times> 'q pystate" where
  "settings_contains h key s =
     (let present = (key \<in> dom (store_of s h))
      in (present, s\<lparr>calls := calls s @ [Ev_contains key present]\<rparr>))"

definition settings_value ::
  "('q option \<Rightarrow> error + int) \<Rightarrow> qsettings \<Rightarrow> string \<Rightarrow> 'q pystate \<Rightarrow> (error + int) \<times> 'q pystate" where
  "settings_value as_int h key s =
     (case store_of s h key of
        None \<Rightarrow> (as_int None, s\<lparr>calls := calls s @ [Ev_value key False]\<rparr>)
      | Some v \<Rightarrow> (as_int (Some v), s\<lparr>calls := calls s @ [Ev_value key True]\<rparr>))"

definition read_machinist :: "('q option \<Rightarrow> error + int) \<Rightarrow> 'q pystate \<Rightarrow> outcome \<times> 'q pystate" where
  "read_machinist as_int s =
     (let (h, s1) = QSettings ''Open Source'' ''FlatCAM'' s;
          s2 = bind_global ''settings'' (PyQSettings (fst h) (snd h)) s1;
          (present, s3) = settings_contains h ''machinist'' s2
      in if present
         then (case settings_value as_int h ''machinist'' s3 of
                 (Inl e, s4) \<Rightarrow> (Raised e, s4)
               | (Inr n, s4) \<Rightarrow> (Completed, bind_global ''machinist_setting'' (PyInt n) s4))
         else (Completed, bind_global ''machinist_setting'' (PyInt 0) s3))"

subsection \<open>The whole module\<close>

definition load_module :: "('q option \<Rightarrow> error + int) \<Rightarrow> 'q pystate \<Rightarrow> outcome \<times> 'q pystate" where
  "load_module as_int s =
     (case bootstrap s of
        (Raised e, s1) \<Rightarrow> (Raised e, s1)
      | (Completed, s1) \<Rightarrow> read_machinist as_int s1)"

text \<open>The pair that names the table the module reads.\<close>

definition flatcam :: qsettings where
  "flatcam = (''Open Source'', ''FlatCAM'')"

subsection \<open>Example inputs\<close>

text \<open>
  Stored values are integers in the examples. \<open>int_variant\<close> is a conversion that
  takes a stored integer as it is and the invalid variant to 0; \<open>always_raises\<close> is
  one that fails on whatever it gets.
\<close>

definition int_variant :: "int option \<Rightarrow> error + int" where
  "int_variant q = (case q of None \<Rightarrow> Inr 0 | Some i \<Rightarrow> Inr i)"

definition always_raises :: "int option \<Rightarrow> error + int" where
  "always_raises q = Inl TypeError"

text \<open>A first run: nothing stored, no catalog, no name bound.\<close>

definition fresh_state :: "int pystate" where
  "fresh_state =
     \<lparr>builtins_dict = Map.empty, module_dict = Map.empty, storage = Map.empty,
      text_domain = ''messages'', catalogs = Map.empty, calls = []\<rparr>"

text \<open>The user has switched the machinist mode on.\<close>

definition machinist_on :: "int pystate" where
  "machinist_on = fresh_state\<lparr>storage := [flatcam \<mapsto> [''machinist'' \<mapsto> 1]]\<rparr>"

text \<open>Some translator was installed in builtins before the module is imported.\<close>

definition shout :: "string \<Rightarrow> pyval" where
  "shout m = PyStr (m @ ''!'')"

definition installed_state :: "int pystate" where
  "installed_state = fresh_state\<lparr>builtins_dict := [''_'' \<mapsto> PyFun shout]\<rparr>"

text \<open>
  The module namespace already holds a translator under \<open>_\<close> (a star import whose
  source lists the name, or an earlier binding kept across a reload), builtins holds none.
\<close>

definition module_bound_state :: "int pystate" where
  "module_bound_state = fresh_state\<lparr>module_dict := [''_'' \<mapsto> PyFun shout]\<rparr>"

text \<open>A catalog with one entry is found, whichever of the two domains is asked for.\<close>

definition spanish :: catalog where
  "spanish = [''Hello'' \<mapsto> ''Hola'']"

definition spanish_state :: "int pystate" where
  "spanish_state = fresh_state\<lparr>catalogs := [''messages'' \<mapsto> spanish, ''strings'' \<mapsto> spanish]\<rparr>"

text \<open>
  An interactive interpreter keeps the last displayed result in \<^verbatim>\<open>builtins._\<close>;
  here that result was the number 5.
\<close>

definition last_result_state :: "int pystate" where
  "last_result_state = fresh_state\<lparr>builtins_dict := [''_'' \<mapsto> PyInt 5]\<rparr>"

section \<open>Basic facts about the three steps\<close>

lemma bootstrap_eq: "bootstrap s = (Completed, translator_guard (s\<lparr>text_domain := ''strings''\<rparr>))"
  by (simp add: bootstrap_def apply_language_def)

lemma load_module_eq: "load_module as_int s = read_machinist as_int (snd (bootstrap s))"
  by (simp add: load_module_def bootstrap_def apply_language_def)

lemma guard_bound: "builtins_dict s ''_'' = Some f \<Longrightarrow> translator_guard s = s"
  by (simp add: translator_guard_def dom_def)

lemma guard_unbound:
  "builtins_dict s ''_'' = None \<Longrightarrow> translator_guard s = bind_global ''_'' Gettext_gettext s"
  by (simp add: translator_guard_def dom_def)

lemma builtins_guard: "builtins_dict (translator_guard s) = builtins_dict s"
  by (simp add: translator_guard_def bind_global_def)

text \<open>
  The guard looks into builtins and writes into the module: a module-level \<open>_\<close> with
  no \<open>_\<close> in builtins is bound anew.
\<close>

lemma guard_rebinds_module_name:
  "builtins_dict s ''_'' = None \<Longrightarrow> module_dict (translator_guard s) ''_'' = Some Gettext_gettext"
  by (simp add: guard_unbound bind_global_def)

lemma lookup_guard_unbound:
  "builtins_dict s ''_'' = None \<Longrightarrow> lookup_name (translator_guard s) ''_'' = Some Gettext_gettext"
  by (simp add: guard_unbound bind_global_def lookup_name_def)

lemma lookup_text_domain: "lookup_name (s\<lparr>text_domain := d\<rparr>) name = lookup_name s name"
  by (simp add: lookup_name_def split: option.splits)

lemma is_translator_call: "is_translator f \<Longrightarrow> \<exists>t. call s f m = Inr (PyStr t)"
  by (cases f) (auto simp: is_translator_def call_def)

lemma not_callable_call: "\<not> callable f \<Longrightarrow> call s f m = Inl TypeError"
  by (cases f) (auto simp: callable_def call_def)

lemma store_of_bootstrap: "store_of (snd (bootstrap s)) h = store_of s h"
  by (simp add: bootstrap_eq translator_guard_def bind_global_def store_of_def)

lemma storage_bootstrap: "storage (snd (bootstrap s)) = storage s"
  by (simp add: bootstrap_eq translator_guard_def bind_global_def)

lemma calls_bootstrap: "calls (snd (bootstrap s)) = calls s"
  by (simp add: bootstrap_eq translator_guard_def bind_global_def)

text \<open>What lines 12 to 16 do, by what the storage holds under the key.\<close>

lemma read_machinist_absent:
  assumes "store_of s flatcam ''machinist'' = None"
  shows "read_machinist as_int s =
    (Completed,
     s\<lparr>module_dict := (module_dict s)(''settings'' \<mapsto> PyQSettings ''Open Source'' ''FlatCAM'',
                                      ''machinist_setting'' \<mapsto> PyInt 0),
       calls := calls s @ [Ev_open ''Open Source'' ''FlatCAM'', Ev_contains ''machinist'' False]\<rparr>)"
  using assms
  by (simp add: read_machinist_def QSettings_def bind_global_def settings_contains_def
      store_of_def flatcam_def Let_def dom_def)

lemma read_machinist_present:
  assumes "store_of s flatcam ''machinist'' = Some v"
  shows "read_machinist as_int s =
    (case as_int (Some v) of
       Inl e \<Rightarrow>
         (Raised e,
          s\<lparr>module_dict := (module_dict s)(''settings'' \<mapsto> PyQSettings ''Open Source'' ''FlatCAM''),
            calls := calls s @ [Ev_open ''Open Source'' ''FlatCAM'', Ev_contains ''machinist'' True,
                                Ev_value ''machinist'' True]\<rparr>)
     | Inr n \<Rightarrow>
         (Completed,
          s\<lparr>module_dict := (module_dict s)(''settings'' \<mapsto> PyQSettings ''Open Source'' ''FlatCAM'',
                                           ''machinist_setting'' \<mapsto> PyInt n),
            calls := calls s @ [Ev_open ''Open Source'' ''FlatCAM'', Ev_contains ''machinist'' True,
                                Ev_value ''machinist'' True]\<rparr>))"
  using assms
  by (simp add: read_machinist_def QSettings_def bind_global_def settings_contains_def
      settings_value_def store_of_def flatcam_def Let_def dom_def split: sum.splits)

text \<open>A conversion that fails surfaces as the module's own failure, with no flag bound.\<close>

lemma read_machinist_conversion_fails:
  assumes "store_of s flatcam ''machinist'' = Some v" and "as_int (Some v) = Inl e"
  shows "fst (read_machinist as_int s) = Raised e"
    and "module_dict (snd (read_machinist as_int s)) ''machinist_setting'' =
         module_dict s ''machinist_setting''"
  using assms by (simp_all add: read_machinist_present)

lemma storage_read_machinist: "storage (snd (read_machinist as_int s)) = storage s"
  by (cases "store_of s flatcam ''machinist''")
     (simp_all add: read_machinist_absent read_machinist_present split: sum.splits)

lemma names_read_machinist:
  "builtins_dict (snd (read_machinist as_int s)) = builtins_dict s"
  "module_dict (snd (read_machinist as_int s)) ''_'' = module_dict s ''_''"
  by (cases "store_of s flatcam ''machinist''";
      simp add: read_machinist_absent read_machinist_present split: sum.splits)+

lemma lookup_read_machinist:
  "lookup_name (snd (read_machinist as_int s)) ''_'' = lookup_name s ''_''"
  by (simp add: lookup_name_def names_read_machinist split: option.splits)

lemma store_fresh: "store_of fresh_state flatcam ''machinist'' = None"
  by (simp add: fresh_state_def store_of_def)

lemma store_machinist_on: "store_of machinist_on flatcam ''machinist'' = Some 1"
  by (simp add: machinist_on_def fresh_state_def store_of_def)

section \<open>The machinist flag\<close>

text \<open>
  Claim C1. Whatever the settings storage holds: after the module is loaded,
  \<open>machinist_setting\<close> is 0 when the key \<open>machinist\<close> is not in the store, and is the
  stored value converted to an integer when the key is there.
\<close>

theorem machinist_setting_after_load:
  "(store_of s flatcam ''machinist'' = None \<longrightarrow>
      fst (load_module as_int s) = Completed \<and>
      module_dict (snd (load_module as_int s)) ''machinist_setting'' = Some (PyInt 0)) \<and>
   (\<forall>v n. store_of s flatcam ''machinist'' = Some v \<and> as_int (Some v) = Inr n \<longrightarrow>
      fst (load_module as_int s) = Completed \<and>
      module_dict (snd (load_module as_int s)) ''machinist_setting'' = Some (PyInt n))"
proof -
  let ?b = "snd (bootstrap s)"
  have same: "store_of ?b flatcam ''machinist'' = store_of s flatcam ''machinist''"
    by (simp add: store_of_bootstrap)
  show ?thesis
  proof (intro conjI impI allI)
    assume "store_of s flatcam ''machinist'' = None"
    then have "store_of ?b flatcam ''machinist'' = None" using same by simp
    from read_machinist_absent [OF this, of as_int]
    show "fst (load_module as_int s) = Completed"
      and "module_dict (snd (load_module as_int s)) ''machinist_setting'' = Some (PyInt 0)"
      by (simp_all add: load_module_eq)
  next
    fix v n
    assume a: "store_of s flatcam ''machinist'' = Some v \<and> as_int (Some v) = Inr n"
    then have "store_of ?b flatcam ''machinist'' = Some v" using same by simp
    from read_machinist_present [OF this, of as_int] a
    show "fst (load_module as_int s) = Completed"
      and "module_dict (snd (load_module as_int s)) ''machinist_setting'' = Some (PyInt n)"
      by (simp_all add: load_module_eq)
  qed
qed

theorem machinist_setting_after_load_witness:
  "store_of fresh_state flatcam ''machinist'' = None \<and>
   module_dict (snd (load_module int_variant fresh_state)) ''machinist_setting'' = Some (PyInt 0) \<and>
   store_of machinist_on flatcam ''machinist'' = Some 1 \<and>
   module_dict (snd (load_module int_variant machinist_on)) ''machinist_setting'' = Some (PyInt 1)"
  using machinist_setting_after_load [of fresh_state int_variant]
    machinist_setting_after_load [of machinist_on int_variant]
    store_machinist_on store_fresh
  by (simp add: int_variant_def)

text \<open>
  Claim C2. When the key \<open>machinist\<close> is not in the store, reading the setting
  (lines 12 to 16) raises nothing, gives the default 0, and leaves the storage as it was.
  No conversion takes part: the statement holds for every \<open>as_int\<close>.
\<close>

theorem read_missing_key_default:
  assumes "store_of s flatcam ''machinist'' = None"
  shows "fst (read_machinist as_int s) = Completed \<and>
         module_dict (snd (read_machinist as_int s)) ''machinist_setting'' = Some (PyInt 0) \<and>
         storage (snd (read_machinist as_int s)) = storage s"
  by (simp add: read_machinist_absent [OF assms])

theorem read_missing_key_default_witness:
  "store_of fresh_state flatcam ''machinist'' = None \<and>
   fst (read_machinist always_raises fresh_state) = Completed \<and>
   module_dict (snd (read_machinist always_raises fresh_state)) ''machinist_setting'' = Some (PyInt 0) \<and>
   storage (snd (read_machinist always_raises fresh_state)) = storage fresh_state"
  using read_missing_key_default [of fresh_state always_raises] store_fresh by simp

section \<open>The translator guard\<close>

text \<open>
  Claim C3, as stated, fails. The guard asks builtins and assigns the name of the module.
  Where the module already binds \<open>_\<close> to a translator and builtins holds no \<open>_\<close>,
  line 9 is true and line 10 replaces that binding by \<^verbatim>\<open>gettext.gettext\<close>: the
  name answered \<open>Hello!\<close> before the guard and answers \<open>Hello\<close> after it.
\<close>

theorem guard_overwrites_module_binding:
  "builtins_dict module_bound_state ''_'' = None \<and>
   module_dict module_bound_state ''_'' = Some (PyFun shout) \<and>
   lookup_name module_bound_state ''_'' = Some (PyFun shout) \<and>
   call_name module_bound_state ''_'' ''Hello'' = Inr (PyStr ''Hello!'') \<and>
   module_dict (translator_guard module_bound_state) ''_'' = Some Gettext_gettext \<and>
   lookup_name (translator_guard module_bound_state) ''_'' = Some Gettext_gettext \<and>
   lookup_name (translator_guard module_bound_state) ''_'' \<noteq> lookup_name module_bound_state ''_'' \<and>
   call_name (translator_guard module_bound_state) ''_'' ''Hello'' = Inr (PyStr ''Hello'')"
  by (simp add: module_bound_state_def fresh_state_def translator_guard_def bind_global_def
      lookup_name_def call_name_def call_def gettext_gettext_def shout_def dom_def)

text \<open>
  Claim C3, amended. For every value \<open>f\<close> that builtins binds to \<open>_\<close>, the guard
  changes nothing at all: \<open>f\<close> stays, and the name \<open>_\<close> resolves as before. From any
  starting state, running the guard twice gives the state that running it once gives.
  With no \<open>_\<close> in builtins the guard binds the name \<open>_\<close> of the module to
  \<^verbatim>\<open>gettext.gettext\<close>, whatever the module bound it to before.
\<close>

theorem guard_idempotent:
  "(\<forall>f. builtins_dict s ''_'' = Some f \<longrightarrow>
      translator_guard s = s \<and> lookup_name (translator_guard s) ''_'' = lookup_name s ''_'') \<and>
   translator_guard (translator_guard s) = translator_guard s \<and>
   (builtins_dict s ''_'' = None \<longrightarrow>
      module_dict (translator_guard s) ''_'' = Some Gettext_gettext \<and>
      builtins_dict (translator_guard s) ''_'' = None)"
proof (intro conjI allI impI)
  fix f assume "builtins_dict s ''_'' = Some f"
  then show "translator_guard s = s" by (rule guard_bound)
  then show "lookup_name (translator_guard s) ''_'' = lookup_name s ''_''" by simp
next
  show "translator_guard (translator_guard s) = translator_guard s"
  proof (cases "builtins_dict s ''_''")
    case None
    then show ?thesis
      by (simp add: translator_guard_def bind_global_def dom_def)
  next
    case (Some f)
    then show ?thesis by (simp add: guard_bound)
  qed
next
  assume none: "builtins_dict s ''_'' = None"
  then show "module_dict (translator_guard s) ''_'' = Some Gettext_gettext"
    by (rule guard_rebinds_module_name)
  from none show "builtins_dict (translator_guard s) ''_'' = None"
    by (simp add: builtins_guard)
qed

theorem guard_idempotent_witness:
  "builtins_dict installed_state ''_'' = Some (PyFun shout) \<and>
   translator_guard installed_state = installed_state \<and>
   lookup_name (translator_guard installed_state) ''_'' = Some (PyFun shout) \<and>
   translator_guard (translator_guard fresh_state) = translator_guard fresh_state \<and>
   builtins_dict module_bound_state ''_'' = None \<and>
   module_dict (translator_guard module_bound_state) ''_'' = Some Gettext_gettext"
proof -
  have b: "builtins_dict installed_state ''_'' = Some (PyFun shout)"
    by (simp add: installed_state_def fresh_state_def)
  have l: "lookup_name installed_state ''_'' = Some (PyFun shout)"
    by (simp add: lookup_name_def installed_state_def fresh_state_def)
  have n: "builtins_dict module_bound_state ''_'' = None"
    by (simp add: module_bound_state_def fresh_state_def)
  note bound = guard_idempotent [of installed_state]
  note twice = guard_idempotent [of fresh_state]
  note unbound = guard_idempotent [of module_bound_state]
  have "translator_guard installed_state = installed_state"
    using bound [THEN conjunct1] b by blast
  moreover have "lookup_name (translator_guard installed_state) ''_'' = Some (PyFun shout)"
    using bound [THEN conjunct1] b l by simp
  moreover have "translator_guard (translator_guard fresh_state) = translator_guard fresh_state"
    using twice [THEN conjunct2, THEN conjunct1] .
  moreover have "module_dict (translator_guard module_bound_state) ''_'' = Some Gettext_gettext"
    using unbound [THEN conjunct2, THEN conjunct2] n by blast
  ultimately show ?thesis using b n by simp
qed

text \<open>
  Claim C4, as stated, fails. With no \<open>_\<close> bound anywhere, the guard installs
  \<^verbatim>\<open>gettext.gettext\<close>, which is a catalog lookup and no identity: where the current
  domain has a catalog with an entry for \<open>Hello\<close>, the installed translator answers
  \<open>Hola\<close>. The same happens after the whole module has run.
\<close>

theorem guard_translator_not_identity:
  "builtins_dict spanish_state ''_'' = None \<and>
   module_dict spanish_state ''_'' = None \<and>
   module_dict (translator_guard spanish_state) ''_'' = Some Gettext_gettext \<and>
   call_name (translator_guard spanish_state) ''_'' ''Hello'' = Inr (PyStr ''Hola'') \<and>
   call_name (translator_guard spanish_state) ''_'' ''Hello'' \<noteq> Inr (PyStr ''Hello'') \<and>
   call_name (snd (load_module int_variant spanish_state)) ''_'' ''Hello'' = Inr (PyStr ''Hola'')"
  by (simp add: spanish_state_def fresh_state_def spanish_def translator_guard_def bind_global_def
      call_name_def lookup_name_def call_def gettext_gettext_def load_module_def bootstrap_def
      apply_language_def read_machinist_def QSettings_def settings_contains_def store_of_def
      Let_def)

text \<open>
  Claim C4, amended. With no \<open>_\<close> in builtins, the guard binds the name \<open>_\<close> of the
  module to \<^verbatim>\<open>gettext.gettext\<close> (builtins stay as they were). The installed
  translator returns a string unchanged when no catalog is found for the current domain,
  or when the catalog found has no entry for that string; it returns the catalog's entry
  otherwise.
\<close>

theorem guard_installs_gettext:
  assumes "builtins_dict s ''_'' = None"
  shows "module_dict (translator_guard s) ''_'' = Some Gettext_gettext \<and>
         builtins_dict (translator_guard s) = builtins_dict s \<and>
         (\<forall>m. catalogs s (text_domain s) = None \<longrightarrow>
              call_name (translator_guard s) ''_'' m = Inr (PyStr m)) \<and>
         (\<forall>t m. catalogs s (text_domain s) = Some t \<and> t m = None \<longrightarrow>
              call_name (translator_guard s) ''_'' m = Inr (PyStr m)) \<and>
         (\<forall>t m tmsg. catalogs s (text_domain s) = Some t \<and> t m = Some tmsg \<longrightarrow>
              call_name (translator_guard s) ''_'' m = Inr (PyStr tmsg))"
  using assms
  by (simp add: guard_unbound bind_global_def call_name_def lookup_name_def call_def
      gettext_gettext_def)

theorem guard_installs_gettext_witness:
  "builtins_dict fresh_state ''_'' = None \<and>
   module_dict (translator_guard fresh_state) ''_'' = Some Gettext_gettext \<and>
   catalogs fresh_state (text_domain fresh_state) = None \<and>
   call_name (translator_guard fresh_state) ''_'' ''Hello'' = Inr (PyStr ''Hello'') \<and>
   builtins_dict spanish_state ''_'' = None \<and>
   catalogs spanish_state (text_domain spanish_state) = Some spanish \<and>
   spanish ''Goodbye'' = None \<and>
   call_name (translator_guard spanish_state) ''_'' ''Goodbye'' = Inr (PyStr ''Goodbye'') \<and>
   spanish ''Hello'' = Some ''Hola'' \<and>
   call_name (translator_guard spanish_state) ''_'' ''Hello'' = Inr (PyStr ''Hola'')"
proof -
  have b: "builtins_dict fresh_state ''_'' = None" by (simp add: fresh_state_def)
  have c: "catalogs fresh_state (text_domain fresh_state) = None" by (simp add: fresh_state_def)
  have b': "builtins_dict spanish_state ''_'' = None"
    by (simp add: spanish_state_def fresh_state_def)
  have c': "catalogs spanish_state (text_domain spanish_state) = Some spanish"
    by (simp add: spanish_state_def fresh_state_def)
  have e: "spanish ''Goodbye'' = None" "spanish ''Hello'' = Some ''Hola''"
    by (simp_all add: spanish_def)
  note plain = guard_installs_gettext [OF b]
  note found = guard_installs_gettext [OF b']
  have "module_dict (translator_guard fresh_state) ''_'' = Some Gettext_gettext"
    using plain by blast
  moreover have "call_name (translator_guard fresh_state) ''_'' ''Hello'' = Inr (PyStr ''Hello'')"
    using plain c by blast
  moreover have "call_name (translator_guard spanish_state) ''_'' ''Goodbye'' = Inr (PyStr ''Goodbye'')"
    using found c' e(1) by blast
  moreover have "call_name (translator_guard spanish_state) ''_'' ''Hello'' = Inr (PyStr ''Hola'')"
    using found c' e(2) by blast
  ultimately show ?thesis using b c b' c' e by blast
qed

section \<open>The settings storage\<close>

text \<open>
  Claim C5. Opening the settings with the pair (\<open>Open Source\<close>, \<open>FlatCAM\<close>) leaves
  the storage as it was and yields the object for that pair; it works when nothing was
  ever stored for the pair, nothing is created then, the table reads as empty and the read
  of lines 12 to 16 completes; a second opening yields the same object and reads the same
  data; and the whole of lines 12 to 16 writes nothing.
\<close>

theorem open_settings_frame:
  "storage (snd (QSettings ''Open Source'' ''FlatCAM'' s)) = storage s \<and>
   fst (QSettings ''Open Source'' ''FlatCAM'' s) = flatcam \<and>
   (storage s flatcam = None \<longrightarrow>
      storage (snd (QSettings ''Open Source'' ''FlatCAM'' s)) flatcam = None \<and>
      store_of (snd (QSettings ''Open Source'' ''FlatCAM'' s)) flatcam = Map.empty \<and>
      fst (read_machinist as_int s) = Completed) \<and>
   fst (QSettings ''Open Source'' ''FlatCAM'' (snd (QSettings ''Open Source'' ''FlatCAM'' s)))
     = fst (QSettings ''Open Source'' ''FlatCAM'' s) \<and>
   store_of (snd (QSettings ''Open Source'' ''FlatCAM'' (snd (QSettings ''Open Source'' ''FlatCAM'' s))))
     = store_of s \<and>
   storage (snd (read_machinist as_int s)) = storage s"
proof (intro conjI impI)
  show "storage (snd (QSettings ''Open Source'' ''FlatCAM'' s)) = storage s"
    by (simp add: QSettings_def)
  show "fst (QSettings ''Open Source'' ''FlatCAM'' s) = flatcam"
    by (simp add: QSettings_def flatcam_def)
  show "fst (QSettings ''Open Source'' ''FlatCAM'' (snd (QSettings ''Open Source'' ''FlatCAM'' s)))
     = fst (QSettings ''Open Source'' ''FlatCAM'' s)"
    by (simp add: QSettings_def)
  show "store_of (snd (QSettings ''Open Source'' ''FlatCAM'' (snd (QSettings ''Open Source'' ''FlatCAM'' s))))
     = store_of s"
    by (rule ext) (simp add: QSettings_def store_of_def)
  show "storage (snd (read_machinist as_int s)) = storage s"
    by (rule storage_read_machinist)
next
  assume none: "storage s flatcam = None"
  then show "storage (snd (QSettings ''Open Source'' ''FlatCAM'' s)) flatcam = None"
    by (simp add: QSettings_def)
  show "store_of (snd (QSettings ''Open Source'' ''FlatCAM'' s)) flatcam = Map.empty"
    using none by (simp add: QSettings_def store_of_def)
  have "store_of s flatcam ''machinist'' = None"
    using none by (simp add: store_of_def)
  then show "fst (read_machinist as_int s) = Completed"
    by (simp add: read_machinist_absent)
qed

theorem open_settings_frame_witness:
  "storage fresh_state flatcam = None \<and>
   fst (read_machinist int_variant fresh_state) = Completed \<and>
   storage (snd (read_machinist int_variant machinist_on)) flatcam = Some [''machinist'' \<mapsto> 1]"
proof -
  have n: "storage fresh_state flatcam = None" by (simp add: fresh_state_def)
  have m: "storage machinist_on flatcam = Some [''machinist'' \<mapsto> 1]"
    by (simp add: machinist_on_def fresh_state_def)
  from open_settings_frame [of fresh_state int_variant]
    open_settings_frame [of machinist_on int_variant] n m
  show ?thesis by simp
qed

section \<open>After the bootstrap\<close>

text \<open>
  Claim C6, as stated, fails. In a state where builtins binds \<open>_\<close> to the number 5,
  the bootstrap completes, the name \<open>_\<close> still resolves to 5, and applying it to a
  string raises.
\<close>

theorem bootstrap_translator_not_guaranteed:
  "fst (bootstrap last_result_state) = Completed \<and>
   lookup_name (snd (bootstrap last_result_state)) ''_'' = Some (PyInt 5) \<and>
   call_name (snd (bootstrap last_result_state)) ''_'' ''Hello'' = Inl TypeError"
  by (simp add: last_result_state_def fresh_state_def bootstrap_eq translator_guard_def
      lookup_name_def call_name_def call_def dom_def)

text \<open>
  Claim C6, amended. For every initial state in which the name \<open>_\<close> is unbound or
  resolves to a translator, with or without a catalog: the bootstrap completes, and
  afterwards the name \<open>_\<close> resolves (in the module namespace, else in builtins) to a
  translator, so that applied to any string it returns a string.
\<close>

theorem bootstrap_translator:
  assumes "\<forall>f. lookup_name s ''_'' = Some f \<longrightarrow> is_translator f"
  shows "fst (bootstrap s) = Completed \<and>
         (\<exists>f. lookup_name (snd (bootstrap s)) ''_'' = Some f \<and> is_translator f) \<and>
         (\<forall>m. \<exists>t. call_name (snd (bootstrap s)) ''_'' m = Inr (PyStr t))"
proof -
  let ?s1 = "s\<lparr>text_domain := ''strings''\<rparr>"
  have ex: "\<exists>f. lookup_name (translator_guard ?s1) ''_'' = Some f \<and> is_translator f"
  proof (cases "builtins_dict s ''_''")
    case None
    then have "lookup_name (translator_guard ?s1) ''_'' = Some Gettext_gettext"
      by (simp add: lookup_guard_unbound)
    then show ?thesis by (simp add: is_translator_def)
  next
    case (Some g)
    then have same: "translator_guard ?s1 = ?s1" by (simp add: guard_bound)
    from Some obtain f where f: "lookup_name s ''_'' = Some f"
      by (cases "module_dict s ''_''") (simp_all add: lookup_name_def)
    with assms have "is_translator f" by simp
    with f same show ?thesis by (simp add: lookup_text_domain)
  qed
  then obtain f where f: "lookup_name (translator_guard ?s1) ''_'' = Some f" "is_translator f"
    by blast
  have "\<forall>m. \<exists>t. call_name (translator_guard ?s1) ''_'' m = Inr (PyStr t)"
  proof
    fix m
    from is_translator_call [OF f(2)]
    obtain t where "call (translator_guard ?s1) f m = Inr (PyStr t)" by blast
    with f(1) show "\<exists>t. call_name (translator_guard ?s1) ''_'' m = Inr (PyStr t)"
      by (simp add: call_name_def)
  qed
  with ex show ?thesis by (simp add: bootstrap_eq)
qed

theorem bootstrap_translator_witness:
  "lookup_name installed_state ''_'' = Some (PyFun shout) \<and> is_translator (PyFun shout) \<and>
   fst (bootstrap installed_state) = Completed \<and>
   (\<forall>m. \<exists>t. call_name (snd (bootstrap installed_state)) ''_'' m = Inr (PyStr t))"
proof -
  have l: "lookup_name installed_state ''_'' = Some (PyFun shout)"
    by (simp add: lookup_name_def installed_state_def fresh_state_def)
  have t: "is_translator (PyFun shout)"
    by (simp add: is_translator_def shout_def)
  from l t have "\<forall>f. lookup_name installed_state ''_'' = Some f \<longrightarrow> is_translator f" by simp
  from bootstrap_translator [OF this] l t show ?thesis by simp
qed

text \<open>
  Claim C7. When no catalog named \<open>strings\<close> exists for the current locale, applying
  the language raises nothing, the bootstrap completes, and translation afterwards is the
  identity: for the library's lookup function, and for the name \<open>_\<close> when the guard
  installs it.
\<close>

theorem missing_catalog_identity:
  assumes "catalogs s ''strings'' = None"
  shows "fst (apply_language ''strings'' s) = Completed \<and>
         (\<forall>m. gettext_gettext (snd (apply_language ''strings'' s)) m = m) \<and>
         fst (bootstrap s) = Completed \<and>
         (\<forall>m. gettext_gettext (snd (bootstrap s)) m = m) \<and>
         (builtins_dict s ''_'' = None \<longrightarrow>
            (\<forall>m. call_name (snd (bootstrap s)) ''_'' m = Inr (PyStr m)))"
  using assms
  by (simp add: bootstrap_eq apply_language_def gettext_gettext_def translator_guard_def
      bind_global_def call_name_def lookup_name_def call_def dom_def)

theorem missing_catalog_identity_witness:
  "catalogs fresh_state ''strings'' = None \<and>
   fst (bootstrap fresh_state) = Completed \<and>
   gettext_gettext (snd (bootstrap fresh_state)) ''Hello'' = ''Hello'' \<and>
   call_name (snd (bootstrap fresh_state)) ''_'' ''Hello'' = Inr (PyStr ''Hello'')"
proof -
  have c: "catalogs fresh_state ''strings'' = None" by (simp add: fresh_state_def)
  have b: "builtins_dict fresh_state ''_'' = None" by (simp add: fresh_state_def)
  from missing_catalog_identity [OF c] b c show ?thesis by simp
qed

section \<open>What the guard does not check\<close>

text \<open>
  Claim C8. The guard tests only whether \<open>_\<close> is bound in builtins, not what it is
  bound to. When builtins binds \<open>_\<close> to any value \<open>v\<close>, the guard changes nothing and
  the whole module leaves both bindings of \<open>_\<close> as they were; when \<open>v\<close> is no
  callable and the module has no \<open>_\<close> of its own, applying \<open>_\<close> after the module has
  run raises, so a callable translator is not there.
\<close>

theorem guard_tests_boundness_only:
  assumes "builtins_dict s ''_'' = Some v"
  shows "translator_guard s = s \<and>
         builtins_dict (snd (load_module as_int s)) ''_'' = Some v \<and>
         module_dict (snd (load_module as_int s)) ''_'' = module_dict s ''_'' \<and>
         lookup_name (snd (load_module as_int s)) ''_'' = lookup_name s ''_'' \<and>
         (module_dict s ''_'' = None \<and> \<not> callable v \<longrightarrow>
            (\<forall>m. call_name (snd (load_module as_int s)) ''_'' m = Inl TypeError))"
proof -
  let ?s1 = "s\<lparr>text_domain := ''strings''\<rparr>"
  let ?s' = "snd (load_module as_int s)"
  have g: "translator_guard ?s1 = ?s1" using assms by (simp add: guard_bound)
  have l: "load_module as_int s = read_machinist as_int ?s1"
    by (simp add: load_module_eq bootstrap_eq g)
  have b: "builtins_dict ?s' ''_'' = Some v"
    using assms by (simp add: l names_read_machinist)
  have m: "module_dict ?s' ''_'' = module_dict s ''_''"
    by (simp add: l names_read_machinist)
  have n: "lookup_name ?s' ''_'' = lookup_name s ''_''"
    by (simp add: l lookup_read_machinist lookup_text_domain)
  have c: "call_name ?s' ''_'' m = Inl TypeError"
    if "module_dict s ''_'' = None" "\<not> callable v" for m
  proof -
    from that(1) assms have "lookup_name s ''_'' = Some v" by (simp add: lookup_name_def)
    with n have "lookup_name ?s' ''_'' = Some v" by simp
    with that(2) show ?thesis by (simp add: call_name_def not_callable_call)
  qed
  from assms b m n c show ?thesis by (simp add: guard_bound)
qed

theorem guard_tests_boundness_only_witness:
  "builtins_dict last_result_state ''_'' = Some (PyInt 5) \<and> \<not> callable (PyInt 5) \<and>
   module_dict last_result_state ''_'' = None \<and>
   translator_guard last_result_state = last_result_state \<and>
   builtins_dict (snd (load_module int_variant last_result_state)) ''_'' = Some (PyInt 5) \<and>
   module_dict (snd (load_module int_variant last_result_state)) ''_'' = None \<and>
   call_name (snd (load_module int_variant last_result_state)) ''_'' ''Hello'' = Inl TypeError"
proof -
  have b: "builtins_dict last_result_state ''_'' = Some (PyInt 5)"
    by (simp add: last_result_state_def fresh_state_def)
  have m: "module_dict last_result_state ''_'' = None"
    by (simp add: last_result_state_def fresh_state_def)
  have c: "\<not> callable (PyInt 5)" by (simp add: callable_def)
  from guard_tests_boundness_only [OF b, of int_variant] b m c show ?thesis by simp
qed

section \<open>The calls made on the settings object\<close>

lemma calls_load_absent:
  assumes "store_of s flatcam ''machinist'' = None"
  shows "calls (snd (load_module as_int s)) =
         calls s @ [Ev_open ''Open Source'' ''FlatCAM'', Ev_contains ''machinist'' False]"
proof -
  from assms have "store_of (snd (bootstrap s)) flatcam ''machinist'' = None"
    by (simp add: store_of_bootstrap)
  then show ?thesis
    by (simp add: load_module_eq read_machinist_absent calls_bootstrap)
qed

lemma calls_load_present:
  assumes "store_of s flatcam ''machinist'' = Some v"
  shows "calls (snd (load_module as_int s)) =
         calls s @ [Ev_open ''Open Source'' ''FlatCAM'', Ev_contains ''machinist'' True,
                    Ev_value ''machinist'' True]"
proof -
  from assms have b: "store_of (snd (bootstrap s)) flatcam ''machinist'' = Some v"
    by (simp add: store_of_bootstrap)
  show ?thesis
    by (cases "as_int (Some v)")
       (simp_all add: load_module_eq read_machinist_present [OF b] calls_bootstrap)
qed

lemma load_absent_default:
  assumes "store_of s flatcam ''machinist'' = None"
  shows "fst (load_module as_int s) = Completed"
    and "module_dict (snd (load_module as_int s)) ''machinist_setting'' = Some (PyInt 0)"
proof -
  from assms have "store_of (snd (bootstrap s)) flatcam ''machinist'' = None"
    by (simp add: store_of_bootstrap)
  then show "fst (load_module as_int s) = Completed"
    and "module_dict (snd (load_module as_int s)) ''machinist_setting'' = Some (PyInt 0)"
    by (simp_all add: load_module_eq read_machinist_absent)
qed

text \<open>
  Claim C9. The module calls \<^verbatim>\<open>value\<close> for the key \<open>machinist\<close> only when
  \<^verbatim>\<open>contains\<close> has answered yes. The calls it adds to the log are: open, contains,
  and, when the key is there, one value call that finds the key. So no value call ever
  meets a missing key, and when the key is missing the 0 comes from the else branch,
  with no value call made, whatever the conversion would do with a missing key.
\<close>

theorem value_read_only_when_present:
  "calls (snd (load_module as_int s)) =
     calls s @ (if ''machinist'' \<in> dom (store_of s flatcam)
                then [Ev_open ''Open Source'' ''FlatCAM'', Ev_contains ''machinist'' True,
                      Ev_value ''machinist'' True]
                else [Ev_open ''Open Source'' ''FlatCAM'', Ev_contains ''machinist'' False]) \<and>
   (\<forall>key. Ev_value key False \<notin> set (drop (length (calls s)) (calls (snd (load_module as_int s))))) \<and>
   (\<forall>key found. Ev_value key found \<in> set (drop (length (calls s)) (calls (snd (load_module as_int s))))
       \<longrightarrow> key = ''machinist'' \<and> ''machinist'' \<in> dom (store_of s flatcam)) \<and>
   (''machinist'' \<notin> dom (store_of s flatcam) \<longrightarrow>
       fst (load_module as_int s) = Completed \<and>
       module_dict (snd (load_module as_int s)) ''machinist_setting'' = Some (PyInt 0))"
proof (cases "store_of s flatcam ''machinist''")
  case None
  then have d: "''machinist'' \<notin> dom (store_of s flatcam)" by (simp add: dom_def)
  have c: "calls (snd (load_module as_int s)) =
         calls s @ [Ev_open ''Open Source'' ''FlatCAM'', Ev_contains ''machinist'' False]"
    using None by (rule calls_load_absent)
  then have n: "drop (length (calls s)) (calls (snd (load_module as_int s))) =
         [Ev_open ''Open Source'' ''FlatCAM'', Ev_contains ''machinist'' False]"
    by simp
  show ?thesis
    using d c load_absent_default [OF None, of as_int] by (simp add: n)
next
  case (Some v)
  then have d: "''machinist'' \<in> dom (store_of s flatcam)" by (simp add: dom_def)
  have c: "calls (snd (load_module as_int s)) =
         calls s @ [Ev_open ''Open Source'' ''FlatCAM'', Ev_contains ''machinist'' True,
                    Ev_value ''machinist'' True]"
    using Some by (rule calls_load_present)
  then have n: "drop (length (calls s)) (calls (snd (load_module as_int s))) =
         [Ev_open ''Open Source'' ''FlatCAM'', Ev_contains ''machinist'' True,
          Ev_value ''machinist'' True]"
    by simp
  show ?thesis
    using d c by (simp add: n)
qed

theorem value_read_only_when_present_witness:
  "calls (snd (load_module always_raises fresh_state)) =
     [Ev_open ''Open Source'' ''FlatCAM'', Ev_contains ''machinist'' False] \<and>
   module_dict (snd (load_module always_raises fresh_state)) ''machinist_setting'' = Some (PyInt 0) \<and>
   calls (snd (load_module int_variant machinist_on)) =
     [Ev_open ''Open Source'' ''FlatCAM'', Ev_contains ''machinist'' True, Ev_value ''machinist'' True] \<and>
   ''machinist'' \<in> dom (store_of machinist_on flatcam)"
proof -
  have f: "''machinist'' \<notin> dom (store_of fresh_state flatcam)"
    using store_fresh by (simp add: dom_def)
  have m: "''machinist'' \<in> dom (store_of machinist_on flatcam)"
    using store_machinist_on by (simp add: dom_def)
  have c: "calls fresh_state = []" "calls machinist_on = []"
    by (simp_all add: machinist_on_def fresh_state_def)
  note absent = value_read_only_when_present [of always_raises fresh_state]
  note present = value_read_only_when_present [of int_variant machinist_on]
  have "calls (snd (load_module always_raises fresh_state)) =
     [Ev_open ''Open Source'' ''FlatCAM'', Ev_contains ''machinist'' False]"
    using absent [THEN conjunct1] f c by simp
  moreover have
    "module_dict (snd (load_module always_raises fresh_state)) ''machinist_setting'' = Some (PyInt 0)"
    using absent [THEN conjunct2, THEN conjunct2, THEN conjunct2] f by simp
  moreover have "calls (snd (load_module int_variant machinist_on)) =
     [Ev_open ''Open Source'' ''FlatCAM'', Ev_contains ''machinist'' True, Ev_value ''machinist'' True]"
    using present [THEN conjunct1] m c by simp
  moreover have "''machinist'' \<in> dom (store_of machinist_on flatcam)"
  proof -
    have "Ev_value ''machinist'' True \<in>
        set (drop (length (calls machinist_on)) (calls (snd (load_module int_variant machinist_on))))"
      using present [THEN conjunct1] m c by simp
    with present [THEN conjunct2, THEN conjunct2, THEN conjunct1] show ?thesis by blast
  qed
  ultimately show ?thesis by simp
qed

section \<open>Determinism\<close>

lemma read_machinist_agree:
  assumes "storage s1 = storage s2" "builtins_dict s1 = builtins_dict s2"
    "module_dict s1 = module_dict s2"
  shows "fst (read_machinist as_int s1) = fst (read_machinist as_int s2) \<and>
         module_dict (snd (read_machinist as_int s1)) = module_dict (snd (read_machinist as_int s2)) \<and>
         builtins_dict (snd (read_machinist as_int s1)) = builtins_dict (snd (read_machinist as_int s2))"
proof -
  have st: "store_of s1 flatcam ''machinist'' = store_of s2 flatcam ''machinist''"
    using assms(1) by (simp add: store_of_def)
  show ?thesis
  proof (cases "store_of s1 flatcam ''machinist''")
    case None
    with st have "store_of s2 flatcam ''machinist'' = None" by simp
    with None assms show ?thesis by (simp add: read_machinist_absent)
  next
    case (Some v)
    with st have "store_of s2 flatcam ''machinist'' = Some v" by simp
    with Some assms show ?thesis by (simp add: read_machinist_present split: sum.splits)
  qed
qed

text \<open>
  Claim C10. Two runs of the module that start with the same stored settings and the
  same two namespaces end alike: both complete or both raise the same error, and they
  agree on \<open>machinist_setting\<close> and on what \<open>_\<close> is bound to. Whatever else the two
  starting states differ in (the catalogs, the current domain, the log) has no influence.
\<close>

theorem load_module_deterministic:
  assumes "storage s1 = storage s2" "builtins_dict s1 = builtins_dict s2"
    "module_dict s1 = module_dict s2"
  shows "fst (load_module as_int s1) = fst (load_module as_int s2) \<and>
         module_dict (snd (load_module as_int s1)) ''machinist_setting'' =
           module_dict (snd (load_module as_int s2)) ''machinist_setting'' \<and>
         module_dict (snd (load_module as_int s1)) ''_'' =
           module_dict (snd (load_module as_int s2)) ''_'' \<and>
         builtins_dict (snd (load_module as_int s1)) ''_'' =
           builtins_dict (snd (load_module as_int s2)) ''_'' \<and>
         lookup_name (snd (load_module as_int s1)) ''_'' =
           lookup_name (snd (load_module as_int s2)) ''_''"
proof -
  let ?b1 = "snd (bootstrap s1)" and ?b2 = "snd (bootstrap s2)"
  have "storage ?b1 = storage ?b2" using assms(1) by (simp add: storage_bootstrap)
  moreover have "builtins_dict ?b1 = builtins_dict ?b2"
    using assms(2) by (simp add: bootstrap_eq builtins_guard)
  moreover have "module_dict ?b1 = module_dict ?b2"
    using assms(2,3) by (simp add: bootstrap_eq translator_guard_def bind_global_def)
  ultimately have
    "fst (read_machinist as_int ?b1) = fst (read_machinist as_int ?b2) \<and>
     module_dict (snd (read_machinist as_int ?b1)) = module_dict (snd (read_machinist as_int ?b2)) \<and>
     builtins_dict (snd (read_machinist as_int ?b1)) = builtins_dict (snd (read_machinist as_int ?b2))"
    by (rule read_machinist_agree)
  then show ?thesis by (simp add: load_module_eq lookup_name_def split: option.splits)
qed

theorem load_module_deterministic_witness:
  "storage fresh_state = storage spanish_state \<and>
   builtins_dict fresh_state = builtins_dict spanish_state \<and>
   module_dict fresh_state = module_dict spanish_state \<and>
   catalogs fresh_state \<noteq> catalogs spanish_state \<and>
   module_dict (snd (load_module int_variant fresh_state)) ''machinist_setting'' =
     module_dict (snd (load_module int_variant spanish_state)) ''machinist_setting'' \<and>
   lookup_name (snd (load_module int_variant fresh_state)) ''_'' =
     lookup_name (snd (load_module int_variant spanish_state)) ''_''"
proof -
  have a: "storage fresh_state = storage spanish_state"
    "builtins_dict fresh_state = builtins_dict spanish_state"
    "module_dict fresh_state = module_dict spanish_state"
    by (simp_all add: spanish_state_def)
  have c: "catalogs fresh_state \<noteq> catalogs spanish_state"
  proof
    assume "catalogs fresh_state = catalogs spanish_state"
    then have "catalogs fresh_state ''strings'' = catalogs spanish_state ''strings''" by simp
    then show False by (simp add: spanish_state_def fresh_state_def)
  qed
  from load_module_deterministic [OF a, of int_variant] a c show ?thesis by blast
qed

end
